theory Spec2Isabelle
  imports Main
begin

section \<open>The replica engine (class SimpleYDoc)\<close>

text \<open>
  The client keeps its replica in an object of class \<open>SimpleYDoc\<close>: the character
  store \<open>content\<close>, the origin clock table \<open>vectorClock\<close> and the two stacks of
  the undo ledger. Every method mutates the object; here it takes the document and returns
  the new one, methods that return the emitted operations return a pair.

  A character is the object literal built in \<open>insert\<close>. Its \<open>value\<close> is \<open>text[i]\<close>,
  one code unit of the inserted string, modelled as one \<open>char\<close>; positions, lengths and
  clocks are the non-negative integers the editor passes (cursor offsets, string lengths,
  counters). The field \<open>char_ref\<close> is not a field of the JavaScript object: it names the
  object itself. The undo ledger keeps references to character objects and later assigns to
  their \<open>deleted\<close> field, so the model needs to know which element of \<open>content\<close> is which
  object; \<open>nextRef\<close> is the next unused reference (replicas that share a heap take it
  from the heap, see \<open>view\<close> below).

  The listeners (\<open>onChange\<close>, \<open>notifyListeners\<close>) only refresh the user interface and are
  left out.
\<close>

record character =
  char_id :: string
  char_value :: char
  char_clientId :: string
  char_clock :: nat
  char_deleted :: bool
  char_position :: nat
  char_ref :: nat

record operation =
  op_type :: string
  op_char :: character
  op_origin :: string

datatype ledger_entry =
    InsertEntry string nat nat bool
  | DeleteEntry nat "nat list" bool

text \<open>
  \<open>InsertEntry text position count isRedo\<close> is \<open>{type: 'insert', text, position, count}\<close>,
  \<open>DeleteEntry position chars isRedo\<close> is \<open>{type: 'delete', position, chars}\<close> with the
  character objects given by their references; \<open>isRedo\<close> is the flag \<open>undo\<close> adds when it
  copies an entry to the redo stack. A stack is the array in its own order: \<open>push\<close> appends,
  \<open>pop\<close> takes the last element.
\<close>

record ydoc =
  clientId :: string
  content :: "character list"
  vectorClock :: "string \<rightharpoonup> nat"
  undoStack :: "ledger_entry list"
  redoStack :: "ledger_entry list"
  nextRef :: nat

definition newDoc :: "string \<Rightarrow> ydoc" where
  "newDoc cid = \<lparr>clientId = cid, content = [], vectorClock = Map.empty,
     undoStack = [], redoStack = [], nextRef = 0\<rparr>"

subsection \<open>getText\<close>

definition visible :: "character list \<Rightarrow> character list" where
  "visible cs = filter (\<lambda>c. \<not> char_deleted c) cs"

definition getText :: "ydoc \<Rightarrow> string" where
  "getText d = map char_value (visible (content d))"

subsection \<open>Decimal rendering of a clock in a character id\<close>

definition digitChar :: "nat \<Rightarrow> char" where
  "digitChar n = char_of (48 + n)"

function numberToString :: "nat \<Rightarrow> string" where
  "numberToString n =
     (if n < 10 then [digitChar n] else numberToString (n div 10) @ [digitChar (n mod 10)])"
  by pat_completeness auto
termination
  by (relation "measure (\<lambda>n. n)") auto

declare numberToString.simps [simp del]

subsection \<open>insert\<close>

text \<open>
  The inner loop of \<open>insert\<close>: \<open>insertIndex\<close> counts the characters that are not deleted
  and stops at the first of them once the count equals \<open>position + i\<close>. The arguments are
  the part of \<open>content\<close> still to visit, the target and the count so far.
\<close>

fun insertIndexLoop :: "character list \<Rightarrow> nat \<Rightarrow> nat \<Rightarrow> nat" where
  "insertIndexLoop [] target insertIndex = insertIndex"
| "insertIndexLoop (c # cs) target insertIndex =
     (if \<not> char_deleted c
      then (if insertIndex = target then insertIndex
            else insertIndexLoop cs target (Suc insertIndex))
      else insertIndexLoop cs target insertIndex)"

definition splice :: "nat \<Rightarrow> 'a \<Rightarrow> 'a list \<Rightarrow> 'a list" where
  \<comment> \<open>\<open>xs.splice(k, 0, x)\<close>; a start beyond the end is the end.\<close>
  "splice k x xs = take k xs @ [x] @ drop k xs"

definition currentClock :: "ydoc \<Rightarrow> nat" where
  \<comment> \<open>\<open>this.vectorClock[this.clientId] || 0\<close>\<close>
  "currentClock d = (case vectorClock d (clientId d) of None \<Rightarrow> 0 | Some n \<Rightarrow> n)"

definition newChar :: "ydoc \<Rightarrow> nat \<Rightarrow> char \<Rightarrow> nat \<Rightarrow> character" where
  "newChar d clock u pos =
     \<lparr>char_id = clientId d @ ''-'' @ numberToString clock, char_value = u,
      char_clientId = clientId d, char_clock = clock, char_deleted = False,
      char_position = pos, char_ref = nextRef d\<rparr>"

text \<open>The outer loop, over the units of \<open>text\<close> that are left, \<open>i\<close> being the index of the first.\<close>

fun insertLoop :: "string \<Rightarrow> nat \<Rightarrow> string \<Rightarrow> nat \<Rightarrow> ydoc \<Rightarrow> ydoc \<times> operation list" where
  "insertLoop origin position [] i d = (d, [])"
| "insertLoop origin position (u # us) i d =
     (let clock = currentClock d + 1;
          ch = newChar d clock u (position + i);
          insertIndex = insertIndexLoop (content d) (position + i) 0;
          d' = d\<lparr>vectorClock := (vectorClock d)(clientId d \<mapsto> clock),
                 content := splice insertIndex ch (content d),
                 nextRef := Suc (nextRef d)\<rparr>;
          (d'', ops) = insertLoop origin position us (Suc i) d'
      in (d'', \<lparr>op_type = ''insert'', op_char = ch, op_origin = origin\<rparr> # ops))"

definition insert_text :: "nat \<Rightarrow> string \<Rightarrow> string \<Rightarrow> ydoc \<Rightarrow> ydoc \<times> operation list" where
  "insert_text position text origin d =
     (let (d', ops) = insertLoop origin position text 0 d;
          d'' = (if origin = ''local''
                 then d'\<lparr>undoStack := undoStack d' @ [InsertEntry text position (length text) False],
                         redoStack := []\<rparr>
                 else d')
      in (d'', ops))"

subsection \<open>delete\<close>

text \<open>
  The loop of \<open>delete\<close> over the part of \<open>content\<close> still to visit, with the counters
  \<open>deleted\<close> and \<open>currentPos\<close>; it returns the visited part as it is afterwards, and the
  operations. An operation holds the character object, whose flag is set by then.
\<close>

fun deleteLoop :: "nat \<Rightarrow> nat \<Rightarrow> string \<Rightarrow> character list \<Rightarrow> nat \<Rightarrow> nat
    \<Rightarrow> character list \<times> operation list" where
  "deleteLoop position len origin [] deleted currentPos = ([], [])"
| "deleteLoop position len origin (c # cs) deleted currentPos =
     (if deleted < len
      then (if \<not> char_deleted c
            then (if currentPos \<ge> position
                  then (let c' = c\<lparr>char_deleted := True\<rparr>;
                            (cs', ops) = deleteLoop position len origin cs (Suc deleted) (Suc currentPos)
                        in (c' # cs', \<lparr>op_type = ''delete'', op_char = c', op_origin = origin\<rparr> # ops))
                  else (let (cs', ops) = deleteLoop position len origin cs deleted (Suc currentPos)
                        in (c # cs', ops)))
            else (let (cs', ops) = deleteLoop position len origin cs deleted currentPos
                  in (c # cs', ops)))
      else (c # cs, []))"

definition delete_text :: "nat \<Rightarrow> nat \<Rightarrow> string \<Rightarrow> ydoc \<Rightarrow> ydoc \<times> operation list" where
  "delete_text position len origin d =
     (let (cs, ops) = deleteLoop position len origin (content d) 0 0;
          d' = d\<lparr>content := cs\<rparr>;
          d'' = (if origin = ''local''
                 then d'\<lparr>undoStack := undoStack d' @
                            [DeleteEntry position (map (\<lambda>op. char_ref (op_char op)) ops) False],
                         redoStack := []\<rparr>
                 else d')
      in (d'', ops))"

subsection \<open>undo and redo\<close>

definition setDeleted :: "nat list \<Rightarrow> bool \<Rightarrow> character list \<Rightarrow> character list" where
  \<comment> \<open>\<open>chars.forEach(char => { char.deleted = b })\<close>, seen from \<open>content\<close>\<close>
  "setDeleted refs b cs = map (\<lambda>c. if char_ref c \<in> set refs then c\<lparr>char_deleted := b\<rparr> else c) cs"

definition undo :: "ydoc \<Rightarrow> ydoc" where
  "undo d =
     (if undoStack d = [] then d
      else (let operation = last (undoStack d);
                d1 = d\<lparr>undoStack := butlast (undoStack d)\<rparr>
            in case operation of
                 InsertEntry text position count isRedo \<Rightarrow>
                   (let (d2, ops) = delete_text position count ''undo'' d1
                    in d2\<lparr>redoStack := redoStack d2 @ [InsertEntry text position count True]\<rparr>)
               | DeleteEntry position chars isRedo \<Rightarrow>
                   d1\<lparr>content := setDeleted chars False (content d1),
                      redoStack := redoStack d1 @ [DeleteEntry position chars True]\<rparr>))"

definition redo :: "ydoc \<Rightarrow> ydoc" where
  "redo d =
     (if redoStack d = [] then d
      else (let operation = last (redoStack d);
                d1 = d\<lparr>redoStack := butlast (redoStack d)\<rparr>
            in case operation of
                 InsertEntry text position count isRedo \<Rightarrow>
                   (let (d2, ops) = insert_text position text ''redo'' d1
                    in d2\<lparr>undoStack := undoStack d2 @ [operation]\<rparr>)
               | DeleteEntry position chars isRedo \<Rightarrow>
                   d1\<lparr>content := setDeleted chars True (content d1),
                      undoStack := undoStack d1 @ [operation]\<rparr>))"

subsection \<open>applyRemoteOps\<close>

text \<open>
  The comparison function given to \<open>sort\<close>. \<open>String.prototype.localeCompare\<close> belongs to
  the host, not to the repository, and depends on its locale: it is the parameter \<open>lc\<close>.
  \<open>codeUnitCompare\<close> compares code unit by code unit; the theorems about concrete documents
  use it.
\<close>

definition charCompare :: "(string \<Rightarrow> string \<Rightarrow> int) \<Rightarrow> character \<Rightarrow> character \<Rightarrow> int" where
  "charCompare lc a b =
     (if char_clientId a = char_clientId b then int (char_clock a) - int (char_clock b)
      else lc (char_clientId a) (char_clientId b))"

fun codeUnitCompare :: "string \<Rightarrow> string \<Rightarrow> int" where
  "codeUnitCompare [] [] = 0"
| "codeUnitCompare [] (y # ys) = - 1"
| "codeUnitCompare (x # xs) [] = 1"
| "codeUnitCompare (x # xs) (y # ys) =
     (if (of_char x :: nat) < of_char y then - 1
      else if (of_char y :: nat) < of_char x then 1
      else codeUnitCompare xs ys)"

text \<open>
  \<open>Array.prototype.sort\<close> is stable: elements that compare equal keep their order. It is
  an insertion sort here, each element going in front of the first one it does not exceed.
\<close>

fun insortBy :: "('a \<Rightarrow> 'a \<Rightarrow> int) \<Rightarrow> 'a \<Rightarrow> 'a list \<Rightarrow> 'a list" where
  "insortBy cmp x [] = [x]"
| "insortBy cmp x (y # ys) = (if cmp x y \<le> 0 then x # y # ys else y # insortBy cmp x ys)"

definition jsSort :: "('a \<Rightarrow> 'a \<Rightarrow> int) \<Rightarrow> 'a list \<Rightarrow> 'a list" where
  "jsSort cmp xs = foldr (insortBy cmp) xs []"

fun tombstoneFirst :: "string \<Rightarrow> character list \<Rightarrow> character list" where
  \<comment> \<open>\<open>const char = content.find(c => c.id === i); if (char) char.deleted = true\<close>\<close>
  "tombstoneFirst i [] = []"
| "tombstoneFirst i (c # cs) =
     (if char_id c = i then c\<lparr>char_deleted := True\<rparr> # cs else c # tombstoneFirst i cs)"

definition hasId :: "string \<Rightarrow> character list \<Rightarrow> bool" where
  \<comment> \<open>\<open>content.findIndex(c => c.id === i) !== -1\<close>\<close>
  "hasId i cs = (\<exists>c \<in> set cs. char_id c = i)"

text \<open>
  One round of the \<open>forEach\<close>. An insert pushes \<open>op.char\<close> itself, the object the
  operation holds, under the reference it has; a delete assigns to the first object of
  \<open>content\<close> with the id, not to the one the operation holds.
\<close>

definition applyRemoteOp :: "(string \<Rightarrow> string \<Rightarrow> int) \<Rightarrow> ydoc \<Rightarrow> operation \<Rightarrow> ydoc" where
  "applyRemoteOp lc d op =
     (if op_type op = ''insert''
      then (if \<not> hasId (char_id (op_char op)) (content d)
            then d\<lparr>content := jsSort (charCompare lc) (content d @ [op_char op])\<rparr>
            else d)
      else if op_type op = ''delete''
      then d\<lparr>content := tombstoneFirst (char_id (op_char op)) (content d)\<rparr>
      else d)"

definition applyRemoteOps :: "(string \<Rightarrow> string \<Rightarrow> int) \<Rightarrow> operation list \<Rightarrow> ydoc \<Rightarrow> ydoc" where
  "applyRemoteOps lc ops d = foldl (applyRemoteOp lc) d ops"

section \<open>Character objects shared between replicas\<close>

text \<open>
  The replicas of one page live in one JavaScript heap, and \<open>SimulatedConnection\<close> hands
  a message over as it is, without any copy. The character object built by \<open>insert\<close> is
  therefore one object in the sender's \<open>content\<close>, in the insert operation, in the delete
  operation that later flags it, and in the \<open>content\<close> of every replica that has applied
  the insert. Its only field ever assigned after it is built is \<open>deleted\<close>.

  The heap holds that field for every object, by reference, and the next unused reference.
  A document or an operation written down earlier shows its objects as they were then;
  \<open>view\<close> and \<open>viewOp\<close> show them as the heap has them now. A method call of a replica
  runs the method on the view and writes the flags of its \<open>content\<close> back (\<open>commit\<close>):
  a method assigns to objects of its own \<open>content\<close> only, and no object is twice in a
  \<open>content\<close>.
\<close>

record heap =
  deletedOf :: "nat \<Rightarrow> bool"
  nextObject :: nat

definition emptyHeap :: heap where
  "emptyHeap = \<lparr>deletedOf = (\<lambda>r. False), nextObject = 0\<rparr>"

definition loadChar :: "heap \<Rightarrow> character \<Rightarrow> character" where
  "loadChar h c = c\<lparr>char_deleted := deletedOf h (char_ref c)\<rparr>"

definition view :: "heap \<Rightarrow> ydoc \<Rightarrow> ydoc" where
  "view h d = d\<lparr>content := map (loadChar h) (content d), nextRef := nextObject h\<rparr>"

definition viewOp :: "heap \<Rightarrow> operation \<Rightarrow> operation" where
  "viewOp h op = op\<lparr>op_char := loadChar h (op_char op)\<rparr>"

definition commit :: "heap \<Rightarrow> ydoc \<Rightarrow> heap" where
  "commit h d =
     \<lparr>deletedOf = foldr (\<lambda>c f. f(char_ref c := char_deleted c)) (content d) (deletedOf h),
      nextObject = nextRef d\<rparr>"

definition getTextIn :: "heap \<Rightarrow> ydoc \<Rightarrow> string" where
  "getTextIn h d = getText (view h d)"

definition insertIn :: "heap \<Rightarrow> ydoc \<Rightarrow> nat \<Rightarrow> string \<Rightarrow> string \<Rightarrow> heap \<times> ydoc \<times> operation list" where
  "insertIn h d position text origin =
     (let (d', ops) = insert_text position text origin (view h d) in (commit h d', d', ops))"

definition deleteIn :: "heap \<Rightarrow> ydoc \<Rightarrow> nat \<Rightarrow> nat \<Rightarrow> string \<Rightarrow> heap \<times> ydoc \<times> operation list" where
  "deleteIn h d position len origin =
     (let (d', ops) = delete_text position len origin (view h d) in (commit h d', d', ops))"

definition undoIn :: "heap \<Rightarrow> ydoc \<Rightarrow> heap \<times> ydoc" where
  "undoIn h d = (let d' = undo (view h d) in (commit h d', d'))"

definition redoIn :: "heap \<Rightarrow> ydoc \<Rightarrow> heap \<times> ydoc" where
  "redoIn h d = (let d' = redo (view h d) in (commit h d', d'))"

definition applyRemoteOpsIn :: "(string \<Rightarrow> string \<Rightarrow> int) \<Rightarrow> heap \<Rightarrow> ydoc \<Rightarrow> operation list
    \<Rightarrow> heap \<times> ydoc" where
  "applyRemoteOpsIn lc h d ops =
     (let d' = applyRemoteOps lc (map (viewOp h) ops) (view h d) in (commit h d', d'))"

section \<open>Update handling on the server (server.js)\<close>

text \<open>
  The server keeps one \<open>DocumentManager\<close> per document id in the map \<open>documents\<close>;
  a manager holds the canonical Yjs document and the set of attached sockets. A socket
  carries \<open>currentDoc\<close>, the id of the document it joined (\<open>null\<close> before any join), and
  its \<open>readyState\<close>. Sockets are named by numbers; \<open>sent\<close> lists the messages the
  server has sent, each with its receiver, and \<open>saved\<close> the documents whose state it has
  asked the file system to write.

  \<open>Y.applyUpdate\<close> belongs to the Yjs library: it is the parameter \<open>Y\<close>. On the bytes of
  an update it either throws (\<open>Inl\<close>, the document as it was) or returns the merged
  document, with the update of the \<open>'update'\<close> event when the library emits one.
\<close>

datatype serverMessage = ErrorMessage string | UpdateMessage "nat list" string

record socket =
  currentDoc :: "string option"
  readyState :: nat

record 'y documentManager =
  docId :: string
  doc :: 'y
  clients :: "nat list"

record 'y server =
  documents :: "string \<rightharpoonup> 'y documentManager"
  sockets :: "nat \<Rightarrow> socket"
  sent :: "(nat \<times> serverMessage) list"
  saved :: "string list"

definition broadcastUpdate :: "'y server \<Rightarrow> 'y documentManager \<Rightarrow> nat list \<Rightarrow> nat \<Rightarrow> 'y server" where
  "broadcastUpdate s dm update origin =
     s\<lparr>sent := sent s @
          map (\<lambda>client. (client, UpdateMessage update (docId dm)))
            (filter (\<lambda>client. client \<noteq> origin \<and> readyState (sockets s client) = 1) (clients dm))\<rparr>"

text \<open>
  \<open>DocumentManager.applyUpdate\<close> of the manager stored under \<open>k\<close>, with the handler the
  constructor registered for \<open>'update'\<close>: the origin is the sending socket, never \<open>'load'\<close>,
  so the handler saves and broadcasts. An exception is caught and logged.
\<close>

definition applyUpdate :: "('y \<Rightarrow> nat list \<Rightarrow> string + 'y \<times> nat list option) \<Rightarrow> 'y server \<Rightarrow> string
    \<Rightarrow> 'y documentManager \<Rightarrow> nat list \<Rightarrow> nat \<Rightarrow> 'y server" where
  "applyUpdate Y s k dm update client =
     (case Y (doc dm) update of
        Inl e \<Rightarrow> s
      | Inr (y, emitted) \<Rightarrow>
          (let dm' = dm\<lparr>doc := y\<rparr>;
               s' = s\<lparr>documents := (documents s)(k \<mapsto> dm')\<rparr>
           in case emitted of
                None \<Rightarrow> s'
              | Some u \<Rightarrow> broadcastUpdate (s'\<lparr>saved := saved s' @ [docId dm']\<rparr>) dm' u client))"

text \<open>
  \<open>handleUpdate(ws, message)\<close>; \<open>message.docId\<close> is \<open>None\<close> when the message has none.
  \<open>!ws.currentDoc\<close> holds for \<open>null\<close> and for the empty string.
\<close>

definition handleUpdate :: "('y \<Rightarrow> nat list \<Rightarrow> string + 'y \<times> nat list option) \<Rightarrow> 'y server \<Rightarrow> nat
    \<Rightarrow> nat list \<Rightarrow> string option \<Rightarrow> 'y server" where
  "handleUpdate Y s ws update msgDocId =
     (let cur = currentDoc (sockets s ws)
      in if cur = None \<or> cur = Some [] \<or> cur \<noteq> msgDocId
         then s\<lparr>sent := sent s @ [(ws, ErrorMessage ''Not in document'')]\<rparr>
         else (case msgDocId of
                 None \<Rightarrow> s
               | Some k \<Rightarrow>
                   (case documents s k of
                      None \<Rightarrow> s
                    | Some dm \<Rightarrow> applyUpdate Y s k dm update ws)))"

section \<open>Concrete documents and servers\<close>

text \<open>
  Client \<open>a\<close> types \<open>x\<close>, then \<open>y\<close> in front of it, then erases the \<open>x\<close>. Each
  step is the pair of the document and the operations the call returned, which the editor
  sends to the other replicas.
\<close>

definition typeX :: "ydoc \<times> operation list" where
  "typeX = insert_text 0 ''x'' ''local'' (newDoc ''a'')"

definition typeY :: "ydoc \<times> operation list" where
  "typeY = insert_text 0 ''y'' ''local'' (fst typeX)"

definition eraseX :: "ydoc \<times> operation list" where
  "eraseX = delete_text 1 1 ''local'' (fst typeY)"

text \<open>Client \<open>a\<close> types \<open>abc\<close> and erases the \<open>a\<close>: a tombstone in front of \<open>bc\<close>.\<close>

definition typeAbc :: "ydoc \<times> operation list" where
  "typeAbc = insert_text 0 ''abc'' ''local'' (newDoc ''a'')"

definition eraseA :: "ydoc \<times> operation list" where
  "eraseA = delete_text 0 1 ''local'' (fst typeAbc)"

text \<open>
  Participant \<open>b\<close> types \<open>X\<close> and participant \<open>a\<close> types \<open>Y\<close>, each at position 0 of
  an empty replica; then each applies the other's operations. \<open>p1Merged\<close> and
  \<open>p2Merged\<close> are the two replicas as the heap has them after the four calls.
\<close>

definition p1Types :: "heap \<times> ydoc \<times> operation list" where
  "p1Types = insertIn emptyHeap (newDoc ''b'') 0 ''X'' ''local''"

definition p2Types :: "heap \<times> ydoc \<times> operation list" where
  "p2Types = insertIn (fst p1Types) (newDoc ''a'') 0 ''Y'' ''local''"

definition p1Merges :: "heap \<times> ydoc" where
  "p1Merges = applyRemoteOpsIn codeUnitCompare (fst p2Types) (fst (snd p1Types)) (snd (snd p2Types))"

definition p2Merges :: "heap \<times> ydoc" where
  "p2Merges = applyRemoteOpsIn codeUnitCompare (fst p1Merges) (fst (snd p2Types)) (snd (snd p1Types))"

definition p1Merged :: ydoc where
  "p1Merged = view (fst p2Merges) (snd p1Merges)"

definition p2Merged :: ydoc where
  "p2Merged = view (fst p2Merges) (snd p2Merges)"

text \<open>
  Client \<open>a\<close> types \<open>x\<close> (\<open>typed\<close>), erases it (\<open>erased\<close>) and undoes the erasure
  (\<open>restored\<close>): the heap and the replica after each call; \<open>insX\<close> and \<open>delX\<close> are the
  operations the first two calls returned. \<open>undo\<close> returns none.
\<close>

definition typed :: "heap \<times> ydoc \<times> operation list" where
  "typed = insertIn emptyHeap (newDoc ''a'') 0 ''x'' ''local''"

definition erased :: "heap \<times> ydoc \<times> operation list" where
  "erased = deleteIn (fst typed) (fst (snd typed)) 0 1 ''local''"

definition restored :: "heap \<times> ydoc" where
  "restored = undoIn (fst erased) (fst (snd erased))"

definition insX :: operation where
  "insX = hd (snd (snd typed))"

definition delX :: operation where
  "delX = hd (snd (snd erased))"

text \<open>
  A third replica, \<open>c\<close>, receives the delete before the insert, right after \<open>a\<close>
  erased: first the delete alone (\<open>deleteFirst\<close>), then the insert (\<open>insertLater\<close>).
\<close>

definition deleteFirst :: "heap \<times> ydoc" where
  "deleteFirst = applyRemoteOpsIn codeUnitCompare (fst erased) (newDoc ''c'') [delX]"

definition insertLater :: "heap \<times> ydoc" where
  "insertLater = applyRemoteOpsIn codeUnitCompare (fst deleteFirst) (snd deleteFirst) [insX]"

text \<open>
  The same replica receives the two operations, delete first, after \<open>a\<close> has undone the
  erasure: once (\<open>appliedOnce\<close>), and then once more (\<open>appliedTwice\<close>).
\<close>

definition appliedOnce :: "heap \<times> ydoc" where
  "appliedOnce = applyRemoteOpsIn codeUnitCompare (fst restored) (newDoc ''c'') [delX, insX]"

definition appliedTwice :: "heap \<times> ydoc" where
  "appliedTwice = applyRemoteOpsIn codeUnitCompare (fst appliedOnce) (snd appliedOnce) [delX, insX]"











text \<open>
  A server with one document, \<open>room\<close>, joined by the sockets 0, 1 and 2, of which 2 is
  closed; every other socket has joined nothing. \<open>appendBytes\<close> stands for the library: it
  rejects an empty update and appends any other to the document.
\<close>

definition appendBytes :: "nat list \<Rightarrow> nat list \<Rightarrow> string + nat list \<times> nat list option" where
  "appendBytes y u = (if u = [] then Inl ''empty update'' else Inr (y @ u, Some u))"

definition roomServer :: "nat list server" where
  "roomServer =
     \<lparr>documents = [''room'' \<mapsto> \<lparr>docId = ''room'', doc = [1], clients = [0, 1, 2]\<rparr>],
      sockets = (\<lambda>ws. if ws = 0 \<or> ws = 1 then \<lparr>currentDoc = Some ''room'', readyState = 1\<rparr>
                       else if ws = 2 then \<lparr>currentDoc = Some ''room'', readyState = 3\<rparr>
                       else \<lparr>currentDoc = None, readyState = 1\<rparr>),
      sent = [], saved = []\<rparr>"

text \<open>
  The characters one call of \<open>insert\<close> builds for the units \<open>us\<close>, in a document whose
  client is \<open>cid\<close>, whose clock for that client is \<open>clock\<close> and whose next reference is
  \<open>ref\<close>: the literal of \<open>newChar\<close>, clock and reference counting up unit by unit.
\<close>

fun freshChars :: "string \<Rightarrow> nat \<Rightarrow> nat \<Rightarrow> nat \<Rightarrow> nat \<Rightarrow> string \<Rightarrow> character list" where
  "freshChars cid clock ref pos i [] = []"
| "freshChars cid clock ref pos i (u # us) =
     \<lparr>char_id = cid @ ''-'' @ numberToString (Suc clock), char_value = u,
      char_clientId = cid, char_clock = Suc clock, char_deleted = False,
      char_position = pos + i, char_ref = ref\<rparr> # freshChars cid (Suc clock) (Suc ref) pos (Suc i) us"

section \<open>Lemmas about the loops\<close>

lemma deleteLoop_visible:
  "visible (fst (deleteLoop p n origin cs del cur)) =
     take (p - cur) (visible cs) @ drop ((p - cur) + (n - del)) (visible cs)"
proof (induction cs arbitrary: del cur)
  case Nil
  show ?case by (simp add: visible_def)
next
  case (Cons c cs)
  show ?case
  proof (cases "del < n")
    case False
    then show ?thesis by simp
  next
    case lt: True
    show ?thesis
    proof (cases "char_deleted c")
      case True
      with lt Cons.IH [of del cur] show ?thesis
        by (simp add: visible_def Let_def case_prod_beta)
    next
      case vis: False
      show ?thesis
      proof (cases "p \<le> cur")
        case True
        with lt vis Cons.IH [of "Suc del" "Suc cur"] show ?thesis
          by (simp add: visible_def Let_def case_prod_beta) (metis Suc_diff_Suc drop_Suc_Cons)
      next
        case False
        then have "p - cur = Suc (p - Suc cur)" by simp
        with False lt vis Cons.IH [of del "Suc cur"] show ?thesis
          by (simp add: visible_def Let_def case_prod_beta)
      qed
    qed
  qed
qed




lemma insertLoop_stacks:
  "undoStack (fst (insertLoop origin p us i d)) = undoStack d \<and>
   redoStack (fst (insertLoop origin p us i d)) = redoStack d"
  by (induction us arbitrary: i d) (simp_all add: Let_def case_prod_beta)

lemma set_insortBy: "set (insortBy cmp x xs) = insert x (set xs)"
  by (induction xs) auto

lemma set_jsSort: "set (jsSort cmp xs) = set xs"
  by (induction xs) (simp_all add: jsSort_def set_insortBy)

lemma tombstoneFirst_absent: "\<not> hasId i cs \<Longrightarrow> tombstoneFirst i cs = cs"
  by (induction cs) (auto simp: hasId_def)

lemma broadcast_documents: "documents (broadcastUpdate s dm u c) = documents s"
  by (simp add: broadcastUpdate_def)

section \<open>What insert and undo do where they are right\<close>

text \<open>
  Within the visible text, \<open>insert\<close> puts the new characters at index \<open>position\<close> of
  \<open>content\<close>. That is the visible position when no tombstone is stored before it, and then
  the text afterwards is the old text with the units put in at \<open>position\<close>, and \<open>undo\<close>
  gives the old text back; position 0 is always such a place.
\<close>


lemma insertIndexLoop_min:
  "k \<le> target \<Longrightarrow> insertIndexLoop cs target k = min target (k + length (visible cs))"
  by (induction cs arbitrary: k) (auto simp: visible_def)

lemma splice_middle:
  "length xs = k \<Longrightarrow> splice k x (xs @ ys) = xs @ x # ys"
  by (simp add: splice_def)

lemma freshChars_values: "map char_value (freshChars cid clock ref pos i us) = us"
  by (induction us arbitrary: clock ref i) simp_all

lemma freshChars_visible: "visible (freshChars cid clock ref pos i us) = freshChars cid clock ref pos i us"
  by (induction us arbitrary: clock ref i) (simp_all add: visible_def)

lemma freshChars_length: "length (freshChars cid clock ref pos i us) = length us"
  by (induction us arbitrary: clock ref i) simp_all

lemma visible_append: "visible (xs @ ys) = visible xs @ visible ys"
  by (simp add: visible_def)

lemma length_visible_le: "length (visible xs) \<le> length xs"
  by (simp add: visible_def)

lemma insertLoop_content:
  assumes "content d = front @ mid @ rear"
    and "length front = p" and "length mid = i" and "visible mid = mid"
    and "p \<le> length (visible front) + length (visible rear)"
  shows "content (fst (insertLoop origin p us i d)) =
           front @ mid @ freshChars (clientId d) (currentClock d) (nextRef d) p i us @ rear
       \<and> map op_char (snd (insertLoop origin p us i d)) =
           freshChars (clientId d) (currentClock d) (nextRef d) p i us
       \<and> clientId (fst (insertLoop origin p us i d)) = clientId d"
  using assms
proof (induction us arbitrary: i d mid)
  case Nil
  then show ?case by simp
next
  case (Cons u us)
  let ?ch = "newChar d (currentClock d + 1) u (p + i)"
  let ?d' = "d\<lparr>vectorClock := (vectorClock d)(clientId d \<mapsto> currentClock d + 1),
                 content := splice (insertIndexLoop (content d) (p + i) 0) ?ch (content d),
                 nextRef := Suc (nextRef d)\<rparr>"
  have vis: "length (visible (content d)) = length (visible front) + i + length (visible rear)"
    using Cons.prems by (simp add: visible_append)
  have idx: "insertIndexLoop (content d) (p + i) 0 = p + i"
    using Cons.prems(5) vis by (simp add: insertIndexLoop_min)
  have c': "content ?d' = front @ (mid @ [?ch]) @ rear"
    using Cons.prems(1,2,3) idx splice_middle [of "front @ mid" "p + i" "?ch" rear] by simp
  have v': "visible (mid @ [?ch]) = mid @ [?ch]"
    using Cons.prems(4) by (simp add: visible_append) (simp add: visible_def newChar_def)
  have cc: "currentClock ?d' = Suc (currentClock d)"
    by (simp add: currentClock_def)
  have l': "length (mid @ [?ch]) = Suc i"
    using Cons.prems(3) by simp
  note ih = Cons.IH [OF c' Cons.prems(2) l' v' Cons.prems(5)]
  from ih Cons.prems(3) cc show ?case
    by (simp add: Let_def case_prod_beta newChar_def)
qed

lemma insert_text_content:
  assumes "p \<le> length (getText d)"
  shows "content (fst (insert_text p us origin d)) =
           take p (content d) @ freshChars (clientId d) (currentClock d) (nextRef d) p 0 us @ drop p (content d)"
proof -
  have le: "p \<le> length (content d)"
    using assms length_visible_le [of "content d"] by (simp add: getText_def)
  have "length (visible (content d)) = length (visible (take p (content d))) + length (visible (drop p (content d)))"
    using visible_append [of "take p (content d)" "drop p (content d)"] by simp
  then have v: "p \<le> length (visible (take p (content d))) + length (visible (drop p (content d)))"
    using assms by (simp add: getText_def)
  have "content (fst (insertLoop origin p us 0 d)) =
      take p (content d) @ [] @ freshChars (clientId d) (currentClock d) (nextRef d) p 0 us @ drop p (content d)"
    using insertLoop_content [of d "take p (content d)" "[]" "drop p (content d)" p 0 origin us] le v
    by (simp add: visible_def)
  then show ?thesis
    by (auto simp: insert_text_def Let_def case_prod_beta)
qed

lemma insert_text_getText:
  assumes "p \<le> length (getText d)"
  shows "getText (fst (insert_text p us origin d)) =
           map char_value (visible (take p (content d))) @ us @ map char_value (visible (drop p (content d)))"
  using insert_text_content [OF assms]
  by (simp add: getText_def visible_append freshChars_visible freshChars_values)

lemma undo_empty: "undoStack d = [] \<Longrightarrow> undo d = d"
  by (simp add: undo_def)


lemma delete_text_getText:
  "getText (fst (delete_text p n origin d)) = take p (getText d) @ drop (p + n) (getText d)"
proof -
  have "content (fst (delete_text p n origin d)) = fst (deleteLoop p n origin (content d) 0 0)"
    by (simp add: delete_text_def Let_def case_prod_beta)
  then show ?thesis
    using deleteLoop_visible [of p n origin "content d" 0 0]
    by (simp add: getText_def take_map drop_map)
qed

lemma upt_0_Suc: "[0..<Suc n] = 0 # map Suc [0..<n]"
  by (simp only: upt_conv_Cons [OF zero_less_Suc] map_Suc_upt)

lemma freshChars_clocks:
  "map char_clock (freshChars cid clock ref pos i us) = map (\<lambda>k. Suc (clock + k)) [0..<length us]"
proof (induction us arbitrary: clock ref i)
  case Nil
  show ?case by simp
next
  case (Cons u us)
  show ?case
    by (simp add: Cons.IH upt_0_Suc o_def del: upt_Suc)
qed

lemma freshChars_ids:
  "map char_id (freshChars cid clock ref pos i us) =
     map (\<lambda>k. cid @ ''-'' @ numberToString (Suc (clock + k))) [0..<length us]"
proof (induction us arbitrary: clock ref i)
  case Nil
  show ?case by simp
next
  case (Cons u us)
  show ?case
    by (simp add: Cons.IH upt_0_Suc o_def del: upt_Suc)
qed

lemma insert_text_ops:
  assumes "p \<le> length (getText d)"
  shows "map op_char (snd (insert_text p us origin d)) =
           freshChars (clientId d) (currentClock d) (nextRef d) p 0 us"
proof -
  have le: "p \<le> length (content d)"
    using assms length_visible_le [of "content d"] by (simp add: getText_def)
  have "length (visible (content d)) = length (visible (take p (content d))) + length (visible (drop p (content d)))"
    using visible_append [of "take p (content d)" "drop p (content d)"] by simp
  then have v: "p \<le> length (visible (take p (content d))) + length (visible (drop p (content d)))"
    using assms by (simp add: getText_def)
  have "map op_char (snd (insertLoop origin p us 0 d)) =
      freshChars (clientId d) (currentClock d) (nextRef d) p 0 us"
    using insertLoop_content [of d "take p (content d)" "[]" "drop p (content d)" p 0 origin us] le v
    by (simp add: visible_def)
  then show ?thesis
    by (auto simp: insert_text_def Let_def case_prod_beta)
qed

lemma insert_text_in_place:
  assumes "p \<le> length (getText d)" and "visible (take p (content d)) = take p (content d)"
  shows "getText (fst (insert_text p us origin d)) = take p (getText d) @ us @ drop p (getText d)"
proof -
  have le: "p \<le> length (content d)"
    using assms(1) length_visible_le [of "content d"] by (simp add: getText_def)
  have g: "getText d = map char_value (take p (content d)) @ map char_value (visible (drop p (content d)))"
    using visible_append [of "take p (content d)" "drop p (content d)"] assms(2)
    by (simp add: getText_def)
  have t: "take p (getText d) = map char_value (take p (content d))"
    using le by (simp add: g)
  have dr: "drop p (getText d) = map char_value (visible (drop p (content d)))"
    using le by (simp add: g)
  show ?thesis
    using insert_text_getText [OF assms(1), of us origin] assms(2) by (simp add: t dr)
qed

lemma insert_text_undoStack:
  "undoStack (fst (insert_text p us ''local'' d)) = undoStack d @ [InsertEntry us p (length us) False]"
  by (simp add: insert_text_def Let_def case_prod_beta insertLoop_stacks)

lemma getText_stack_update [simp]:
  "getText (d\<lparr>undoStack := u\<rparr>) = getText d" "getText (d\<lparr>redoStack := r\<rparr>) = getText d"
  by (simp_all add: getText_def)

lemma undo_insert_entry:
  assumes "undoStack d = st @ [InsertEntry us p n b]"
  shows "getText (undo d) = take p (getText d) @ drop (p + n) (getText d)"
  using assms delete_text_getText [of p n "''undo''" "d\<lparr>undoStack := st\<rparr>"]
  by (simp add: undo_def Let_def case_prod_beta)

lemma undo_after_insert_in_place:
  assumes "p \<le> length (getText d)" and "visible (take p (content d)) = take p (content d)"
  shows "getText (undo (fst (insert_text p us ''local'' d))) = getText d"
proof -
  have "getText (undo (fst (insert_text p us ''local'' d))) =
      take p (take p (getText d) @ us @ drop p (getText d)) @
      drop (p + length us) (take p (getText d) @ us @ drop p (getText d))"
    using undo_insert_entry [OF insert_text_undoStack] insert_text_in_place [OF assms] by simp
  also have "\<dots> = getText d"
    using assms(1) by (simp add: min_absorb2)
  finally show ?thesis .
qed

lemma undo_after_insert_at_front:
  "getText (undo (fst (insert_text 0 us ''local'' d))) = getText d"
  by (rule undo_after_insert_in_place) (simp_all add: visible_def)

lemma tombstoneFirst_idem: "tombstoneFirst i (tombstoneFirst i cs) = tombstoneFirst i cs"
  by (induction cs) auto

lemma hasId_jsSort: "hasId i (jsSort cmp cs) = hasId i cs"
  by (simp add: hasId_def set_jsSort)

lemma applyRemoteOp_idem: "applyRemoteOp lc (applyRemoteOp lc d op) op = applyRemoteOp lc d op"
  by (simp add: applyRemoteOp_def hasId_jsSort tombstoneFirst_idem) (simp add: hasId_def)



section \<open>Lemmas about the heap\<close>

text \<open>
  Loading changes the flag only; writing back what was loaded changes nothing; the text of a
  replica in a heap depends on which objects its \<open>content\<close> holds and in which order, not
  on the flags written down in it.
\<close>


lemma loadChar_fields [simp]:
  "char_id (loadChar h c) = char_id c" "char_value (loadChar h c) = char_value c"
  "char_clientId (loadChar h c) = char_clientId c" "char_clock (loadChar h c) = char_clock c"
  "char_ref (loadChar h c) = char_ref c" "char_deleted (loadChar h c) = deletedOf h (char_ref c)"
  by (simp_all add: loadChar_def)

lemma loadChar_idem [simp]: "loadChar h (loadChar h c) = loadChar h c"
  by (simp add: loadChar_def)

lemma hasId_load [simp]: "hasId i (map (loadChar h) cs) = hasId i cs"
  by (simp add: hasId_def)

lemma charCompare_load [simp]: "charCompare lc (loadChar h a) (loadChar h' b) = charCompare lc a b"
  by (simp add: charCompare_def)

lemma write_back_loaded:
  "foldr (\<lambda>c f. f(char_ref c := char_deleted c)) (map (loadChar h) cs) (deletedOf h) = deletedOf h"
  by (induction cs) (auto simp: fun_eq_iff)

lemma commit_view [simp]: "commit h (view h d) = h"
  by (simp add: commit_def view_def write_back_loaded)

lemma view_view [simp]: "view h (view h d) = view h d"
  by (simp add: view_def)





section \<open>Convergence, commutativity and idempotence of applyRemoteOps\<close>

text \<open>
  Claim C1 (convergence): two replicas that have applied the same operations, locally or
  through \<open>applyRemoteOps\<close>, in any order and with any duplication, show the same text.

  The code does not do this. \<open>insert\<close> places a character by position, \<open>applyRemoteOps\<close>
  sorts by client id and clock. Client \<open>a\<close> types \<open>x\<close> and then \<open>y\<close> in front of it and
  reads \<open>yx\<close>; a replica that receives the two operations reads \<open>xy\<close>.
\<close>

theorem local_and_remote_order_diverge:
  "getText (fst typeY) = ''yx'' \<and>
   getText (applyRemoteOps codeUnitCompare (snd typeX @ snd typeY) (newDoc ''b'')) = ''xy''"
  by code_simp




text \<open>
  Claim C5 (idempotence): applying the same operations twice gives the state that applying
  them once gives.

  Client \<open>a\<close> types \<open>x\<close>, erases it and undoes the erasure; \<open>undo\<close> clears the flag and
  sends nothing. A fresh replica that now receives \<open>[delete a-1, insert a-1]\<close> shows
  \<open>x\<close>: the delete found no character. When it receives the same two operations again,
  the delete finds the character, and the text is empty.
\<close>

theorem reapplied_operations_change_state:
  "map op_type [delX, insX] = [''delete'', ''insert''] \<and>
   getTextIn (fst restored) (snd restored) = ''x'' \<and>
   getTextIn (fst appliedOnce) (snd appliedOnce) = ''x'' \<and>
   map char_deleted (content (snd appliedOnce)) = [False] \<and>
   getTextIn (fst appliedTwice) (snd appliedTwice) = [] \<and>
   map char_deleted (content (snd appliedTwice)) = [True]"
  by code_simp

text \<open>
  Claim C10: a delete whose character id is not in the store is dropped: the state is left
  as it was and nothing of the delete is kept, so that the character is added visible
  when the insert of that id arrives in a later call.

  Added visible fails for the delete its author issued: \<open>delete\<close> has set the flag of the
  character object, and the insert carries that same object. Client \<open>a\<close> types \<open>x\<close> and
  erases it; a fresh replica receives the delete, which leaves it empty, and then the
  insert, which adds the character tombstoned.
\<close>

theorem insert_after_dropped_delete_counterexample:
  "content (snd deleteFirst) = [] \<and>
   map char_id (content (snd insertLater)) = [''a-1''] \<and>
   map char_deleted (content (snd insertLater)) = [True] \<and>
   getTextIn (fst insertLater) (snd insertLater) = []"
  by code_simp

text \<open>
  Claim C10, amended: a delete whose character id is not in the store is dropped: the
  replica and the heap are left as they were and nothing of the delete is kept. When the
  insert of that id arrives in a later call, the character object it holds is added as it
  is by then: visible if its flag is clear, tombstoned if the flag is set, as it is after
  its author's delete. This holds for every comparison function of the host.
\<close>

theorem unknown_delete_dropped_insert_added_as_it_is:
  assumes "op_type del = ''delete''"
    and "\<not> hasId (char_id (op_char del)) (content d)"
    and "op_type ins = ''insert''"
    and "char_id (op_char ins) = char_id (op_char del)"
  shows "applyRemoteOpsIn lc h d [del] = (h, view h d) \<and>
    loadChar h (op_char ins) \<in> set (content (snd (applyRemoteOpsIn lc h (view h d) [ins]))) \<and>
    (loadChar h (op_char ins) \<in> set (visible (content (snd (applyRemoteOpsIn lc h (view h d) [ins]))))) =
      (\<not> deletedOf h (char_ref (op_char ins)))"
proof -
  have absent: "\<not> hasId (char_id (op_char del)) (content (view h d))"
    using assms(2) by (simp add: view_def)
  have "applyRemoteOps lc (map (viewOp h) [del]) (view h d) = view h d"
    using assms(1) absent
    by (simp add: applyRemoteOps_def applyRemoteOp_def viewOp_def tombstoneFirst_absent)
  then have dropped: "applyRemoteOpsIn lc h d [del] = (h, view h d)"
    by (simp add: applyRemoteOpsIn_def)
  have added: "content (snd (applyRemoteOpsIn lc h (view h d) [ins])) =
      jsSort (charCompare lc) (content (view h d) @ [loadChar h (op_char ins)])"
    using assms(3,4) absent
    by (simp add: applyRemoteOpsIn_def applyRemoteOps_def applyRemoteOp_def viewOp_def Let_def)
  show ?thesis
    by (simp add: dropped added set_jsSort visible_def)
qed

theorem unknown_delete_dropped_insert_added_as_it_is_witness:
  "op_type delX = ''delete'' \<and> \<not> hasId (char_id (op_char delX)) (content (newDoc ''c'')) \<and>
   op_type insX = ''insert'' \<and> char_id (op_char insX) = char_id (op_char delX) \<and>
   deleteFirst = (fst erased, view (fst erased) (newDoc ''c'')) \<and>
   deletedOf (fst erased) (char_ref (op_char insX)) \<and>
   loadChar (fst erased) (op_char insX) \<notin> set (visible (content (snd insertLater))) \<and>
   \<not> deletedOf (fst restored) (char_ref (op_char insX)) \<and>
   loadChar (fst restored) (op_char insX) \<in> set (visible (content (snd
     (applyRemoteOpsIn codeUnitCompare (fst restored) (view (fst restored) (newDoc ''c'')) [insX]))))"
proof -
  have h1: "op_type delX = ''delete''" by code_simp
  have h2: "\<not> hasId (char_id (op_char delX)) (content (newDoc ''c''))" by code_simp
  have h3: "op_type insX = ''insert''" by code_simp
  have h4: "char_id (op_char insX) = char_id (op_char delX)" by code_simp
  have f1: "deletedOf (fst erased) (char_ref (op_char insX))" by code_simp
  have f2: "\<not> deletedOf (fst restored) (char_ref (op_char insX))" by code_simp
  note e = unknown_delete_dropped_insert_added_as_it_is [OF h1 h2 h3 h4, of codeUnitCompare "fst erased"]
  note r = unknown_delete_dropped_insert_added_as_it_is [OF h1 h2 h3 h4, of codeUnitCompare "fst restored"]
  have d: "deleteFirst = (fst erased, view (fst erased) (newDoc ''c''))"
    using e by (simp add: deleteFirst_def)
  have l: "insertLater =
      applyRemoteOpsIn codeUnitCompare (fst erased) (view (fst erased) (newDoc ''c'')) [insX]"
    by (simp add: insertLater_def d)
  from h1 h2 h3 h4 f1 f2 d e r show ?thesis by (simp add: l)
qed

section \<open>Local edits\<close>

text \<open>
  Claim C3: \<open>insert(p, text)\<close> with \<open>p\<close> at most the length of the visible text gives
  each unit the next clock of the client and puts the units at visible position \<open>p\<close>,
  tombstones skipped while counting, and returns one insert operation per unit.

  The clocks and the operations are as claimed, the place is not: the loop counts visible
  characters and \<open>splice\<close> takes the count as an index into \<open>content\<close>, tombstones
  included. With one tombstone in front of \<open>bc\<close>, \<open>insert(2, "XY")\<close> gives \<open>bXYc\<close>,
  not \<open>bcXY\<close>.
\<close>

theorem insert_counts_visible_but_splices_stored:
  "getText (fst eraseA) = ''bc'' \<and>
   map char_deleted (content (fst eraseA)) = [True, False, False] \<and>
   getText (fst (insert_text 2 ''XY'' ''local'' (fst eraseA))) = ''bXYc'' \<and>
   map (\<lambda>op. char_id (op_char op)) (snd (insert_text 2 ''XY'' ''local'' (fst eraseA))) = [''a-4'', ''a-5'']"
  by code_simp

text \<open>
  Claim C6 (undo fidelity): a local insert followed at once by \<open>undo()\<close> gives back the
  text from before the insert.

  \<open>undo\<close> deletes \<open>count\<close> visible characters from the recorded position, which is where
  the insert put them only if no tombstone stands before. With one tombstone in front of
  \<open>bc\<close>, \<open>insert(1, "X")\<close> gives \<open>Xbc\<close> and \<open>undo()\<close> then \<open>Xc\<close>.
\<close>

theorem undo_after_insert_behind_tombstone:
  "getText (fst eraseA) = ''bc'' \<and>
   getText (fst (insert_text 1 ''X'' ''local'' (fst eraseA))) = ''Xbc'' \<and>
   getText (undo (fst (insert_text 1 ''X'' ''local'' (fst eraseA)))) = ''Xc''"
  by code_simp

text \<open>
  Claim C4 (undo isolation): P1 inserts \<open>X\<close> at position 0, P2 inserts \<open>Y\<close> at position
  0, both merge; P1's \<open>undo()\<close> removes \<open>X\<close> and leaves \<open>Y\<close>.

  When P2's client id sorts before P1's, the merged text is \<open>YX\<close> on both replicas, and
  P1's \<open>undo()\<close> deletes the character at the recorded position 0: the \<open>Y\<close> of P2.
\<close>

theorem undo_removes_other_participants_character:
  "getText p1Merged = ''YX'' \<and> getText p2Merged = ''YX'' \<and>
   undoStack p1Merged = [InsertEntry ''X'' 0 1 False] \<and>
   getText (undo p1Merged) = ''X'' \<and>
   map char_clientId (visible (content (undo p1Merged))) = [''b'']"
  by code_simp




text \<open>
  Claim C8 (ledger discipline): \<open>insert\<close> and \<open>delete\<close> push an entry on the undo stack
  and empty the redo stack when the origin is \<open>'local'\<close>, and with any other origin leave
  both stacks as they were.
\<close>

theorem ledger_only_for_local_origin:
  "(origin = ''local'' \<longrightarrow>
      undoStack (fst (insert_text p us origin d)) = undoStack d @ [InsertEntry us p (length us) False] \<and>
      redoStack (fst (insert_text p us origin d)) = [] \<and>
      undoStack (fst (delete_text p n origin d)) =
        undoStack d @
          [DeleteEntry p (map (\<lambda>op. char_ref (op_char op)) (snd (delete_text p n origin d))) False] \<and>
      redoStack (fst (delete_text p n origin d)) = [])
   \<and> (origin \<noteq> ''local'' \<longrightarrow>
      undoStack (fst (insert_text p us origin d)) = undoStack d \<and>
      redoStack (fst (insert_text p us origin d)) = redoStack d \<and>
      undoStack (fst (delete_text p n origin d)) = undoStack d \<and>
      redoStack (fst (delete_text p n origin d)) = redoStack d)"
  by (simp add: insert_text_def delete_text_def Let_def case_prod_beta insertLoop_stacks)

theorem ledger_only_for_local_origin_witness:
  "undoStack (undo (fst typeX)) = [] \<and>
   redoStack (undo (fst typeX)) = [InsertEntry ''x'' 0 1 True] \<and>
   undoStack (fst (insert_text 0 ''y'' ''local'' (undo (fst typeX)))) = [InsertEntry ''y'' 0 1 False] \<and>
   redoStack (fst (insert_text 0 ''y'' ''local'' (undo (fst typeX)))) = [] \<and>
   undoStack (fst (insert_text 0 ''y'' ''remote'' (undo (fst typeX)))) = [] \<and>
   redoStack (fst (insert_text 0 ''y'' ''remote'' (undo (fst typeX)))) = [InsertEntry ''x'' 0 1 True] \<and>
   undoStack (fst (delete_text 0 1 ''undo'' (undo (fst typeX)))) = [] \<and>
   redoStack (fst (delete_text 0 1 ''undo'' (undo (fst typeX)))) = [InsertEntry ''x'' 0 1 True]"
proof -
  have u: "undoStack (undo (fst typeX)) = []" by code_simp
  have r: "redoStack (undo (fst typeX)) = [InsertEntry ''x'' 0 1 True]" by code_simp
  from ledger_only_for_local_origin [of "''local''" 0 "''y''" "undo (fst typeX)" 0]
    ledger_only_for_local_origin [of "''remote''" 0 "''y''" "undo (fst typeX)" 0]
    ledger_only_for_local_origin [of "''undo''" 0 "''y''" "undo (fst typeX)" 1]
  show ?thesis by (simp add: u r)
qed

section \<open>The server's gate on updates\<close>

text \<open>
  Claim C9: a socket that has joined no document, or another one than the update names,
  gets the error \<open>Not in document\<close>; the update is not merged and the canonical document
  stays as it is. When the socket has joined the document the update names, the update is
  merged into the canonical document of that id: the document becomes what the library's
  merge returns (and stays as it is when the merge throws), and the sender is sent
  nothing.
\<close>

theorem handleUpdate_requires_join:
  "(currentDoc (sockets s ws) = None \<or> currentDoc (sockets s ws) \<noteq> m \<longrightarrow>
      handleUpdate Y s ws u m = s\<lparr>sent := sent s @ [(ws, ErrorMessage ''Not in document'')]\<rparr> \<and>
      documents (handleUpdate Y s ws u m) = documents s \<and>
      saved (handleUpdate Y s ws u m) = saved s)
   \<and> (currentDoc (sockets s ws) = Some k \<and> k \<noteq> [] \<and> documents s k = Some dm \<longrightarrow>
      documents (handleUpdate Y s ws u (Some k)) =
        (documents s)(k \<mapsto> dm\<lparr>doc := (case Y (doc dm) u of Inl e \<Rightarrow> doc dm | Inr (y, emitted) \<Rightarrow> y)\<rparr>) \<and>
      filter (\<lambda>(c, msg). c = ws) (sent (handleUpdate Y s ws u (Some k))) =
        filter (\<lambda>(c, msg). c = ws) (sent s))"
proof (intro conjI impI)
  assume "currentDoc (sockets s ws) = None \<or> currentDoc (sockets s ws) \<noteq> m"
  then show e: "handleUpdate Y s ws u m = s\<lparr>sent := sent s @ [(ws, ErrorMessage ''Not in document'')]\<rparr>"
    by (auto simp: handleUpdate_def)
  show "documents (handleUpdate Y s ws u m) = documents s" by (simp add: e)
  show "saved (handleUpdate Y s ws u m) = saved s" by (simp add: e)
next
  assume a: "currentDoc (sockets s ws) = Some k \<and> k \<noteq> [] \<and> documents s k = Some dm"
  then have h: "handleUpdate Y s ws u (Some k) = applyUpdate Y s k dm u ws"
    by (simp add: handleUpdate_def)
  show "documents (handleUpdate Y s ws u (Some k)) =
        (documents s)(k \<mapsto> dm\<lparr>doc := (case Y (doc dm) u of Inl e \<Rightarrow> doc dm | Inr (y, emitted) \<Rightarrow> y)\<rparr>)"
    using a unfolding h
    by (auto simp: applyUpdate_def Let_def broadcast_documents split: sum.splits option.splits)
  show "filter (\<lambda>(c, msg). c = ws) (sent (handleUpdate Y s ws u (Some k))) =
        filter (\<lambda>(c, msg). c = ws) (sent s)"
    unfolding h
    by (auto simp: applyUpdate_def Let_def broadcastUpdate_def split: sum.splits option.splits)
qed

theorem handleUpdate_requires_join_witness:
  "currentDoc (sockets roomServer 5) = None \<and>
   sent (handleUpdate appendBytes roomServer 5 [7] (Some ''room'')) =
     [(5, ErrorMessage ''Not in document'')] \<and>
   documents (handleUpdate appendBytes roomServer 5 [7] (Some ''room'')) = documents roomServer \<and>
   currentDoc (sockets roomServer 0) = Some ''room'' \<and>
   documents roomServer ''room'' = Some \<lparr>docId = ''room'', doc = [1], clients = [0, 1, 2]\<rparr> \<and>
   documents (handleUpdate appendBytes roomServer 0 [7] (Some ''room'')) ''room'' =
     Some \<lparr>docId = ''room'', doc = [1, 7], clients = [0, 1, 2]\<rparr>"
proof -
  have n: "currentDoc (sockets roomServer 5) = None" by (simp add: roomServer_def)
  have j: "currentDoc (sockets roomServer 0) = Some ''room''" by (simp add: roomServer_def)
  have d: "documents roomServer ''room'' = Some \<lparr>docId = ''room'', doc = [1], clients = [0, 1, 2]\<rparr>"
    by (simp add: roomServer_def)
  have e: "sent roomServer = []" by (simp add: roomServer_def)
  from handleUpdate_requires_join [where s = roomServer and ws = 5 and m = "Some ''room''"
      and Y = appendBytes and u = "[7]"] n
  have a: "sent (handleUpdate appendBytes roomServer 5 [7] (Some ''room'')) =
        [(5, ErrorMessage ''Not in document'')]"
    and b: "documents (handleUpdate appendBytes roomServer 5 [7] (Some ''room'')) = documents roomServer"
    by (simp_all add: e)
  from handleUpdate_requires_join [where s = roomServer and ws = 0 and Y = appendBytes
      and u = "[7]" and k = "''room''"
      and dm = "\<lparr>docId = ''room'', doc = [1], clients = [0, 1, 2]\<rparr>"] j d
  have c: "documents (handleUpdate appendBytes roomServer 0 [7] (Some ''room'')) ''room'' =
        Some \<lparr>docId = ''room'', doc = [1, 7], clients = [0, 1, 2]\<rparr>"
    by (simp add: appendBytes_def)
  from n a b j d c show ?thesis by simp
qed

end
